theory Spec2Isabelle
  imports Main "HOL-Library.Multiset"
begin

section \<open>The chat server of \<open>app.py\<close>\<close>

text \<open>
  The development embeds the Socket.IO event handlers of \<open>app.py\<close> and the query helpers
  they call. The SQLite tables are lists of rows in rowid order, the two module-level
  dictionaries \<open>active_users\<close> and \<open>user_channels\<close> are maps, and every call a handler makes
  on the Socket.IO server (\<open>enter_room\<close>, \<open>leave_room\<close>, \<open>emit\<close>) is logged, in order, in the
  list of actions the handler returns. The wall clock \<open>datetime.utcnow\<close>, which fills the
  \<open>created_at\<close> and \<open>timestamp\<close> column defaults, is an argument of the handlers that insert
  a row.
\<close>

subsection \<open>Persistent rows\<close>

type_synonym sid = string

record user =
  u_id :: int
  u_username :: string
  u_socket_id :: "sid option"
  u_created_at :: int

record channel =
  c_id :: int
  c_name :: string
  c_description :: "string option"
  c_created_at :: int

record message =
  m_id :: int
  m_content :: string
  m_user_id :: int
  m_channel_id :: int
  m_timestamp :: int

record database =
  users :: "user list"
  channels :: "channel list"
  messages :: "message list"

text \<open>
  An \<open>INTEGER PRIMARY KEY\<close> column that is left unset on insert gets 1 in an empty table
  and one more than the largest key otherwise.
\<close>

definition next_id :: "int list \<Rightarrow> int" where
  "next_id ids = (if ids = [] then 1 else Max (set ids) + 1)"

subsection \<open>In-memory state, emitted events, outcomes\<close>

record state =
  db :: database
  active_users :: "sid \<rightharpoonup> string"
  user_channels :: "sid \<rightharpoonup> int set"

text \<open>
  The rooms an event is addressed to: \<open>f"channel_{channel_id}"\<close>, the private room of one
  connection (\<open>room=sid\<close>), or no room at all, which reaches every connected session.
\<close>

datatype room = Channel_room int | Sid_room sid | All_sessions

record message_data =
  md_id :: int
  md_content :: string
  md_username :: string
  md_timestamp :: int
  md_channel_id :: int

datatype event =
    Joined_app string int
  | Channel_joined int string "message_data list"
  | User_joined string int
  | User_left string int
  | New_message message_data
  | Error_event string
  | Channel_created int string "string option"

text \<open>\<open>Emit e r skip\<close> is \<open>sio.emit(e, room=r, skip_sid=skip)\<close>.\<close>

datatype action =
    Enter_room sid room
  | Leave_room sid room
  | Emit event room "sid option"

datatype py_error = KeyError | AttributeError

text \<open>
  What a handler leaves behind: the state, the calls made on the Socket.IO server, and the
  exception that ended the handler, if one did.
\<close>

record outcome =
  st :: state
  actions :: "action list"
  raised :: "py_error option"

definition done_with :: "state \<Rightarrow> action list \<Rightarrow> outcome" where
  "done_with s as = \<lparr>st = s, actions = as, raised = None\<rparr>"

definition raise_with :: "state \<Rightarrow> action list \<Rightarrow> py_error \<Rightarrow> outcome" where
  "raise_with s as e = \<lparr>st = s, actions = as, raised = Some e\<rparr>"

subsection \<open>Helper functions\<close>

definition create_default_channels :: "int \<Rightarrow> database \<Rightarrow> database" where
  "create_default_channels now d =
     (if length (channels d) = 0
      then d\<lparr>channels :=
             [\<lparr>c_id = 1, c_name = ''general'', c_description = Some ''General discussion'',
               c_created_at = now\<rparr>,
              \<lparr>c_id = 2, c_name = ''random'', c_description = Some ''Random conversations'',
               c_created_at = now\<rparr>,
              \<lparr>c_id = 3, c_name = ''tech'', c_description = Some ''Technology discussions'',
               c_created_at = now\<rparr>]\<rparr>
      else d)"

definition get_user_by_socket_id :: "sid \<Rightarrow> database \<Rightarrow> user option" where
  "get_user_by_socket_id socket_id d = find (\<lambda>u. u_socket_id u = Some socket_id) (users d)"

text \<open>
  \<open>ORDER BY timestamp DESC\<close> is modelled by a stable sort of the rows in rowid order; the
  order SQLite gives rows of equal timestamp is not fixed by the query, and the theorems
  below that speak about order either hold for any such order or assume timestamps that
  differ. The limit is a row count.
\<close>

definition get_channel_messages :: "int \<Rightarrow> database \<Rightarrow> nat \<Rightarrow> message list" where
  "get_channel_messages channel_id d limit =
     rev (take limit
       (sort_key (\<lambda>m. - m_timestamp m)
          (filter (\<lambda>m. m_channel_id m = channel_id) (messages d))))"

text \<open>
  \<open>msg.user.username\<close> follows the foreign key; with no such user row \<open>msg.user\<close> is \<open>None\<close>
  and the attribute access raises.
\<close>

definition message_dict :: "database \<Rightarrow> message \<Rightarrow> py_error + message_data" where
  "message_dict d msg =
     (case find (\<lambda>u. u_id u = m_user_id msg) (users d) of
        None \<Rightarrow> Inl AttributeError
      | Some u \<Rightarrow> Inr \<lparr>md_id = m_id msg, md_content = m_content msg,
                       md_username = u_username u, md_timestamp = m_timestamp msg,
                       md_channel_id = m_channel_id msg\<rparr>)"

fun message_dicts :: "database \<Rightarrow> message list \<Rightarrow> py_error + message_data list" where
  "message_dicts d [] = Inr []"
| "message_dicts d (msg # msgs) =
     (case message_dict d msg of
        Inl e \<Rightarrow> Inl e
      | Inr x \<Rightarrow> (case message_dicts d msgs of Inl e \<Rightarrow> Inl e | Inr xs \<Rightarrow> Inr (x # xs)))"

text \<open>\<open>user.socket_id = v; db.commit()\<close>: an update of the row with the user's key.\<close>

definition set_socket_id :: "int \<Rightarrow> sid option \<Rightarrow> database \<Rightarrow> database" where
  "set_socket_id uid v d =
     d\<lparr>users := map (\<lambda>u. if u_id u = uid then u\<lparr>u_socket_id := v\<rparr> else u) (users d)\<rparr>"

text \<open>
  \<open>str.isspace\<close> on the code points below 256, and \<open>str.strip()\<close> with no argument.
\<close>

definition isspace :: "char \<Rightarrow> bool" where
  "isspace c = (of_char c \<in> {9, 10, 11, 12, 13, 28, 29, 30, 31, 32, 133, 160 :: nat})"

definition strip :: "string \<Rightarrow> string" where
  "strip s = rev (dropWhile isspace (rev (dropWhile isspace s)))"

subsection \<open>Event handlers\<close>

text \<open>\<open>connect\<close> only prints.\<close>

definition connect :: "sid \<Rightarrow> state \<Rightarrow> outcome" where
  "connect sid s = done_with s []"

definition disconnect :: "sid \<Rightarrow> state \<Rightarrow> outcome" where
  "disconnect sid s =
     (case get_user_by_socket_id sid (db s) of
        None \<Rightarrow> done_with s []
      | Some user \<Rightarrow>
          (let s1 = s\<lparr>db := set_socket_id (u_id user) None (db s)\<rparr> in
           case active_users s1 sid of
             None \<Rightarrow> done_with s1 []
           | Some username \<Rightarrow>
               (let s2 = s1\<lparr>active_users := (active_users s1)(sid := None)\<rparr> in
                case user_channels s2 sid of
                  None \<Rightarrow> done_with s2 []
                | Some chans \<Rightarrow>
                    done_with (s2\<lparr>user_channels := (user_channels s2)(sid := None)\<rparr>)
                      (map (\<lambda>channel_id.
                              Emit (User_left username channel_id) (Channel_room channel_id) None)
                         (sorted_list_of_set chans)))))"

text \<open>
  The loop of \<open>disconnect\<close> runs over a Python set, whose iteration order is not specified;
  the model takes the channel ids in ascending order.
\<close>

record join_app_data =
  jad_username :: "string option"

definition join_app :: "sid \<Rightarrow> join_app_data \<Rightarrow> int \<Rightarrow> state \<Rightarrow> outcome" where
  "join_app sid data now s =
     (case jad_username data of
        None \<Rightarrow> raise_with s [] KeyError
      | Some username \<Rightarrow>
          (let d = db s;
               (d', user_id) =
                 (case find (\<lambda>u. u_username u = username) (users d) of
                    None \<Rightarrow>
                      (let i = next_id (map u_id (users d)) in
                       (d\<lparr>users := users d @
                            [\<lparr>u_id = i, u_username = username, u_socket_id = Some sid,
                              u_created_at = now\<rparr>]\<rparr>, i))
                  | Some user \<Rightarrow> (set_socket_id (u_id user) (Some sid) d, u_id user))
           in done_with
                (s\<lparr>db := d',
                   active_users := (active_users s)(sid \<mapsto> username),
                   user_channels := (user_channels s)(sid \<mapsto> {})\<rparr>)
                [Emit (Joined_app username user_id) (Sid_room sid) None]))"

record channel_data =
  cd_channel_id :: "int option"

definition join_channel :: "sid \<Rightarrow> channel_data \<Rightarrow> state \<Rightarrow> outcome" where
  "join_channel sid data s =
     (case cd_channel_id data of
        None \<Rightarrow> raise_with s [] KeyError
      | Some channel_id \<Rightarrow>
          (case (get_user_by_socket_id sid (db s),
                 find (\<lambda>c. c_id c = channel_id) (channels (db s))) of
             (Some user, Some channel) \<Rightarrow>
               (let s1 = (case user_channels s sid of
                            None \<Rightarrow> s
                          | Some chans \<Rightarrow>
                              s\<lparr>user_channels :=
                                  (user_channels s)(sid \<mapsto> insert channel_id chans)\<rparr>);
                    entered = [Enter_room sid (Channel_room channel_id)]
                in case message_dicts (db s) (get_channel_messages channel_id (db s) 50) of
                     Inl e \<Rightarrow> raise_with s1 entered e
                   | Inr message_data \<Rightarrow>
                       done_with s1
                         (entered @
                          [Emit (Channel_joined channel_id (c_name channel) message_data)
                             (Sid_room sid) None,
                           Emit (User_joined (u_username user) channel_id)
                             (Channel_room channel_id) (Some sid)]))
           | _ \<Rightarrow> done_with s []))"

definition leave_channel :: "sid \<Rightarrow> channel_data \<Rightarrow> state \<Rightarrow> outcome" where
  "leave_channel sid data s =
     (case cd_channel_id data of
        None \<Rightarrow> raise_with s [] KeyError
      | Some channel_id \<Rightarrow>
          (case get_user_by_socket_id sid (db s) of
             None \<Rightarrow> done_with s []
           | Some user \<Rightarrow>
               (let s1 = (case user_channels s sid of
                            None \<Rightarrow> s
                          | Some chans \<Rightarrow>
                              s\<lparr>user_channels :=
                                  (user_channels s)(sid \<mapsto> chans - {channel_id})\<rparr>)
                in done_with s1
                     [Leave_room sid (Channel_room channel_id),
                      Emit (User_left (u_username user) channel_id)
                        (Channel_room channel_id) None])))"

record send_message_data =
  smd_channel_id :: "int option"
  smd_content :: "string option"

definition send_message :: "sid \<Rightarrow> send_message_data \<Rightarrow> int \<Rightarrow> state \<Rightarrow> outcome" where
  "send_message sid data now s =
     (case smd_channel_id data of
        None \<Rightarrow> raise_with s [] KeyError
      | Some channel_id \<Rightarrow>
          (case smd_content data of
             None \<Rightarrow> raise_with s [] KeyError
           | Some content \<Rightarrow>
               (case (get_user_by_socket_id sid (db s),
                      find (\<lambda>c. c_id c = channel_id) (channels (db s))) of
                  (Some user, Some channel) \<Rightarrow>
                    (if strip content \<noteq> []
                     then
                       (let d = db s;
                            msg = \<lparr>m_id = next_id (map m_id (messages d)),
                                   m_content = content, m_user_id = u_id user,
                                   m_channel_id = channel_id, m_timestamp = now\<rparr>
                        in done_with (s\<lparr>db := d\<lparr>messages := messages d @ [msg]\<rparr>\<rparr>)
                             [Emit (New_message
                                      \<lparr>md_id = m_id msg, md_content = m_content msg,
                                       md_username = u_username user,
                                       md_timestamp = m_timestamp msg,
                                       md_channel_id = channel_id\<rparr>)
                                (Channel_room channel_id) None])
                     else done_with s [])
                | _ \<Rightarrow> done_with s [])))"

record create_channel_data =
  ccd_name :: "string option"
  ccd_description :: "string option"

definition create_channel :: "sid \<Rightarrow> create_channel_data \<Rightarrow> int \<Rightarrow> state \<Rightarrow> outcome" where
  "create_channel sid data now s =
     (case ccd_name data of
        None \<Rightarrow> raise_with s [] KeyError
      | Some channel_name \<Rightarrow>
          (let channel_description =
                 (case ccd_description data of None \<Rightarrow> '''' | Some x \<Rightarrow> x)
           in case get_user_by_socket_id sid (db s) of
                None \<Rightarrow> done_with s []
              | Some user \<Rightarrow>
                  (case find (\<lambda>c. c_name c = channel_name) (channels (db s)) of
                     Some existing_channel \<Rightarrow>
                       done_with s
                         [Emit (Error_event
                                  (''Channel '' @ [CHR 0x22] @ channel_name @ [CHR 0x22]
                                   @ '' already exists''))
                            (Sid_room sid) None]
                   | None \<Rightarrow>
                       (let d = db s;
                            new_channel =
                              \<lparr>c_id = next_id (map c_id (channels d)), c_name = channel_name,
                               c_description = Some channel_description, c_created_at = now\<rparr>
                        in done_with (s\<lparr>db := d\<lparr>channels := channels d @ [new_channel]\<rparr>\<rparr>)
                             [Emit (Channel_created (c_id new_channel) (c_name new_channel)
                                      (c_description new_channel))
                                All_sessions None]))))"

text \<open>The process starts with empty dictionaries and a store seeded with the default channels.\<close>

definition initial_state :: "int \<Rightarrow> state" where
  "initial_state now =
     \<lparr>db = create_default_channels now \<lparr>users = [], channels = [], messages = []\<rparr>,
      active_users = Map.empty, user_channels = Map.empty\<rparr>"

subsection \<open>Reading outcomes and tables\<close>

text \<open>
  The events a list of actions emits to one room, in order, and the rows of one channel in
  insertion order: the filter of the query in \<open>get_channel_messages\<close> without its ordering
  and limit.
\<close>

fun emits_to :: "room \<Rightarrow> action list \<Rightarrow> event list" where
  "emits_to r [] = []"
| "emits_to r (Emit e r' skip # as) = (if r' = r then e # emits_to r as else emits_to r as)"
| "emits_to r (a # as) = emits_to r as"

definition channel_rows :: "int \<Rightarrow> database \<Rightarrow> message list" where
  "channel_rows channel_id d = filter (\<lambda>m. m_channel_id m = channel_id) (messages d)"

subsection \<open>Example states\<close>

text \<open>
  Concrete states for the instances below. \<open>alice_online\<close> is the state after the first
  \<open>join_app\<close> of a fresh process (lemma \<open>alice_online_reached\<close>).
\<close>

definition alice :: user where
  "alice = \<lparr>u_id = 1, u_username = ''alice'', u_socket_id = Some ''sid_a'', u_created_at = 100\<rparr>"

definition general :: channel where
  "general = \<lparr>c_id = 1, c_name = ''general'', c_description = Some ''General discussion'',
               c_created_at = 0\<rparr>"

definition seeded_channels :: "channel list" where
  "seeded_channels =
     [general,
      \<lparr>c_id = 2, c_name = ''random'', c_description = Some ''Random conversations'',
        c_created_at = 0\<rparr>,
      \<lparr>c_id = 3, c_name = ''tech'', c_description = Some ''Technology discussions'',
        c_created_at = 0\<rparr>]"

definition alice_online :: state where
  "alice_online =
     \<lparr>db = \<lparr>users = [alice], channels = seeded_channels, messages = []\<rparr>,
      active_users = [''sid_a'' \<mapsto> ''alice''],
      user_channels = [''sid_a'' \<mapsto> {}]\<rparr>"

text \<open>
  \<open>alice_in_general\<close> and \<open>alice_two_channels\<close> follow by \<open>join_channel\<close>;
  \<open>alice_rebound\<close> is \<open>alice_in_general\<close> after a second connection \<open>sid_b\<close> has sent
  \<open>join_app\<close> with the same username; in \<open>clock_back\<close> two messages were sent while the
  wall clock stepped back between them.
\<close>

definition alice_in_general :: state where
  "alice_in_general = alice_online\<lparr>user_channels := [''sid_a'' \<mapsto> {1}]\<rparr>"

definition alice_two_channels :: state where
  "alice_two_channels = alice_online\<lparr>user_channels := [''sid_a'' \<mapsto> {1, 2}]\<rparr>"

definition alice_rebound :: state where
  "alice_rebound =
     \<lparr>db = \<lparr>users = [alice\<lparr>u_socket_id := Some ''sid_b''\<rparr>], channels = seeded_channels,
             messages = []\<rparr>,
      active_users = [''sid_a'' \<mapsto> ''alice'', ''sid_b'' \<mapsto> ''alice''],
      user_channels = [''sid_a'' \<mapsto> {1}, ''sid_b'' \<mapsto> {}]\<rparr>"

definition first_msg :: message where
  "first_msg = \<lparr>m_id = 1, m_content = ''one'', m_user_id = 1, m_channel_id = 1, m_timestamp = 200\<rparr>"

definition second_msg :: message where
  "second_msg = \<lparr>m_id = 2, m_content = ''two'', m_user_id = 1, m_channel_id = 1, m_timestamp = 150\<rparr>"

definition clock_back :: state where
  "clock_back = alice_online\<lparr>db := (db alice_online)\<lparr>messages := [first_msg, second_msg]\<rparr>\<rparr>"

definition three_messages :: database where
  "three_messages =
     \<lparr>users = [alice], channels = seeded_channels,
      messages =
        [\<lparr>m_id = 1, m_content = ''a'', m_user_id = 1, m_channel_id = 1, m_timestamp = 10\<rparr>,
         \<lparr>m_id = 2, m_content = ''b'', m_user_id = 1, m_channel_id = 2, m_timestamp = 15\<rparr>,
         \<lparr>m_id = 3, m_content = ''c'', m_user_id = 1, m_channel_id = 1, m_timestamp = 20\<rparr>,
         \<lparr>m_id = 4, m_content = ''d'', m_user_id = 1, m_channel_id = 1, m_timestamp = 30\<rparr>]\<rparr>"

section \<open>Properties\<close>

subsection \<open>Auxiliary facts\<close>

lemma alice_online_reached:
  "alice_online = st (join_app ''sid_a'' \<lparr>jad_username = Some ''alice''\<rparr> 100 (initial_state 0))"
  by (simp add: alice_online_def alice_def seeded_channels_def general_def join_app_def
      initial_state_def done_with_def create_default_channels_def next_id_def)

lemma alice_online_user: "get_user_by_socket_id ''sid_a'' (db alice_online) = Some alice"
  by (simp add: get_user_by_socket_id_def alice_online_def alice_def)

lemma alice_online_general:
  "find (\<lambda>c. c_id c = 1) (channels (db alice_online)) = Some general"
  by (simp add: alice_online_def seeded_channels_def general_def)

lemma alice_in_general_reached:
  "alice_in_general = st (join_channel ''sid_a'' \<lparr>cd_channel_id = Some 1\<rparr> alice_online)"
  by (simp add: alice_in_general_def join_channel_def alice_online_user alice_online_general
      done_with_def get_channel_messages_def)
     (simp add: alice_online_def general_def alice_def done_with_def)

lemma alice_two_channels_reached:
  "alice_two_channels = st (join_channel ''sid_a'' \<lparr>cd_channel_id = Some 2\<rparr> alice_in_general)"
  by (simp add: alice_two_channels_def alice_in_general_def join_channel_def done_with_def
      get_channel_messages_def get_user_by_socket_id_def alice_online_def alice_def
      seeded_channels_def general_def insert_commute)

lemma alice_rebound_reached:
  "alice_rebound = st (join_app ''sid_b'' \<lparr>jad_username = Some ''alice''\<rparr> 300 alice_in_general)"
  by (simp add: alice_rebound_def alice_in_general_def join_app_def done_with_def
      alice_online_def alice_def set_socket_id_def fun_upd_twist)

lemma clock_back_reached:
  "clock_back =
     st (send_message ''sid_a'' \<lparr>smd_channel_id = Some 1, smd_content = Some ''two''\<rparr> 150
       (st (send_message ''sid_a'' \<lparr>smd_channel_id = Some 1, smd_content = Some ''one''\<rparr> 200
          alice_online)))"
  by (simp add: clock_back_def first_msg_def second_msg_def send_message_def done_with_def
      get_user_by_socket_id_def alice_online_def alice_def seeded_channels_def general_def
      strip_def isspace_def next_id_def)

lemma alice_two_channels_user:
  "get_user_by_socket_id ''sid_a'' (db alice_two_channels) = Some alice"
  by (simp add: alice_two_channels_def alice_online_user)

lemma clock_back_user: "get_user_by_socket_id ''sid_a'' (db clock_back) = Some alice"
  by (simp add: clock_back_def get_user_by_socket_id_def alice_online_def alice_def)

lemma clock_back_general:
  "find (\<lambda>c. c_id c = 1) (channels (db clock_back)) = Some general"
  by (simp add: clock_back_def alice_online_def seeded_channels_def general_def)

lemma find_SomeD: "find P xs = Some x \<Longrightarrow> x \<in> set xs \<and> P x"
  by (induction xs) (auto split: if_splits)

lemma dropWhile_all_iff: "(\<forall>x\<in>set (dropWhile P xs). P x) \<longleftrightarrow> (\<forall>x\<in>set xs. P x)"
proof
  assume a: "\<forall>x\<in>set (dropWhile P xs). P x"
  have "dropWhile P xs = []"
  proof (rule ccontr)
    assume n: "dropWhile P xs \<noteq> []"
    then have "\<not> P (hd (dropWhile P xs))" by (rule hd_dropWhile)
    moreover from n have "hd (dropWhile P xs) \<in> set (dropWhile P xs)" by simp
    ultimately show False using a by blast
  qed
  then show "\<forall>x\<in>set xs. P x" by (simp add: dropWhile_eq_Nil_conv)
next
  assume "\<forall>x\<in>set xs. P x"
  then show "\<forall>x\<in>set (dropWhile P xs). P x" by (auto dest: set_dropWhileD)
qed

text \<open>
A string strips to the empty string exactly when all its characters are whitespace.
\<close>

lemma strip_empty_iff: "strip s = [] \<longleftrightarrow> (\<forall>c\<in>set s. isspace c)"
  by (simp add: strip_def dropWhile_eq_Nil_conv dropWhile_all_iff)

subsection \<open>Sending messages\<close>

text \<open>
  Claim C5. When the content of a \<open>send_message\<close> event consists of whitespace only, the
  handler changes nothing and calls nothing: no Message row is added to the store and no
  \<open>new_message\<close> is emitted. This holds for every connection and channel id, in particular
  for an identified connection and an existing channel.
\<close>

theorem C5_whitespace_message_dropped:
  assumes "\<forall>c\<in>set content. isspace c"
  shows "send_message sid \<lparr>smd_channel_id = Some channel_id, smd_content = Some content\<rparr> now s
         = \<lparr>st = s, actions = [], raised = None\<rparr>"
proof -
  from assms have "strip content = []" by (simp add: strip_empty_iff)
  then show ?thesis
    by (simp add: send_message_def done_with_def split: option.splits)
qed

theorem C5_witness:
  "list_all isspace [CHR '' '', CHR 0x09]
   \<and> get_user_by_socket_id ''sid_a'' (db alice_online) \<noteq> None
   \<and> find (\<lambda>c. c_id c = 1) (channels (db alice_online)) \<noteq> None
   \<and> send_message ''sid_a''
       \<lparr>smd_channel_id = Some 1, smd_content = Some [CHR '' '', CHR 0x09]\<rparr> 200 alice_online
     = \<lparr>st = alice_online, actions = [], raised = None\<rparr>"
proof -
  have h: "\<forall>c\<in>set [CHR '' '', CHR 0x09]. isspace c" by (simp add: isspace_def)
  show ?thesis
    using h C5_whitespace_message_dropped [OF h, of "''sid_a''" 1 200 alice_online]
    by (simp add: alice_online_user alice_online_general)
qed

text \<open>
  Claim C9. For an identified connection, an existing channel and a content that is not
  empty after stripping, \<open>send_message\<close> appends one Message row whose content is the
  content as received, and emits one \<open>new_message\<close> to the channel's room whose payload
  carries the same unstripped content.
\<close>

theorem C9_content_kept_untrimmed:
  assumes "get_user_by_socket_id sid (db s) = Some user"
    and "find (\<lambda>c. c_id c = channel_id) (channels (db s)) = Some channel"
    and "strip content \<noteq> []"
  shows "send_message sid \<lparr>smd_channel_id = Some channel_id, smd_content = Some content\<rparr> now s
         = \<lparr>st = s\<lparr>db := (db s)\<lparr>messages := messages (db s) @
                   [\<lparr>m_id = next_id (map m_id (messages (db s))), m_content = content,
                     m_user_id = u_id user, m_channel_id = channel_id, m_timestamp = now\<rparr>]\<rparr>\<rparr>,
             actions = [Emit (New_message
                          \<lparr>md_id = next_id (map m_id (messages (db s))), md_content = content,
                           md_username = u_username user, md_timestamp = now,
                           md_channel_id = channel_id\<rparr>) (Channel_room channel_id) None],
             raised = None\<rparr>"
  using assms by (simp add: send_message_def done_with_def Let_def)

theorem C9_witness:
  "get_user_by_socket_id ''sid_a'' (db alice_online) = Some alice
   \<and> find (\<lambda>c. c_id c = 1) (channels (db alice_online)) \<noteq> None
   \<and> strip ''  hi '' \<noteq> []
   \<and> messages (db (st (send_message ''sid_a''
         \<lparr>smd_channel_id = Some 1, smd_content = Some ''  hi ''\<rparr> 200 alice_online)))
      = [\<lparr>m_id = 1, m_content = ''  hi '', m_user_id = 1, m_channel_id = 1, m_timestamp = 200\<rparr>]
   \<and> actions (send_message ''sid_a''
         \<lparr>smd_channel_id = Some 1, smd_content = Some ''  hi ''\<rparr> 200 alice_online)
      = [Emit (New_message \<lparr>md_id = 1, md_content = ''  hi '', md_username = ''alice'',
                 md_timestamp = 200, md_channel_id = 1\<rparr>) (Channel_room 1) None]"
proof -
  have h: "strip ''  hi '' \<noteq> []" by (simp add: strip_def isspace_def)
  show ?thesis
    using h C9_content_kept_untrimmed [OF alice_online_user alice_online_general h, of 200]
    by (simp add: alice_online_user alice_online_general)
       (simp add: alice_online_def alice_def next_id_def)
qed

subsection \<open>Creating channels\<close>

text \<open>
  Claim C6. For an identified connection, \<open>create_channel\<close> with a name that an existing
  channel already has leaves the state as it is and emits a single \<open>error\<close> event to the
  requester's own room; with a name that no channel has, it appends the new Channel row and
  emits a single \<open>channel_created\<close> to all connected sessions.
\<close>

theorem C6_create_channel:
  assumes "get_user_by_socket_id sid (db s) = Some user"
  shows "(find (\<lambda>c. c_name c = name) (channels (db s)) \<noteq> None \<longrightarrow>
            create_channel sid \<lparr>ccd_name = Some name, ccd_description = descr\<rparr> now s
            = \<lparr>st = s,
               actions = [Emit (Error_event (''Channel '' @ [CHR 0x22] @ name @ [CHR 0x22]
                                   @ '' already exists'')) (Sid_room sid) None],
               raised = None\<rparr>)
       \<and> (find (\<lambda>c. c_name c = name) (channels (db s)) = None \<longrightarrow>
            create_channel sid \<lparr>ccd_name = Some name, ccd_description = descr\<rparr> now s
            = \<lparr>st = s\<lparr>db := (db s)\<lparr>channels := channels (db s) @
                   [\<lparr>c_id = next_id (map c_id (channels (db s))), c_name = name,
                     c_description = Some (case descr of None \<Rightarrow> '''' | Some x \<Rightarrow> x),
                     c_created_at = now\<rparr>]\<rparr>\<rparr>,
               actions = [Emit (Channel_created (next_id (map c_id (channels (db s)))) name
                                  (Some (case descr of None \<Rightarrow> '''' | Some x \<Rightarrow> x)))
                            All_sessions None],
               raised = None\<rparr>)"
  using assms by (auto simp add: create_channel_def done_with_def Let_def)

theorem C6_witness:
  "get_user_by_socket_id ''sid_a'' (db alice_online) = Some alice
   \<and> find (\<lambda>c. c_name c = ''general'') (channels (db alice_online)) \<noteq> None
   \<and> create_channel ''sid_a'' \<lparr>ccd_name = Some ''general'', ccd_description = None\<rparr> 200 alice_online
     = \<lparr>st = alice_online,
        actions = [Emit (Error_event (''Channel '' @ [CHR 0x22] @ ''general'' @ [CHR 0x22]
                                   @ '' already exists'')) (Sid_room ''sid_a'') None],
        raised = None\<rparr>
   \<and> find (\<lambda>c. c_name c = ''music'') (channels (db alice_online)) = None
   \<and> map c_name (channels (db (st (create_channel ''sid_a''
         \<lparr>ccd_name = Some ''music'', ccd_description = None\<rparr> 200 alice_online))))
      = [''general'', ''random'', ''tech'', ''music'']
   \<and> actions (create_channel ''sid_a''
         \<lparr>ccd_name = Some ''music'', ccd_description = None\<rparr> 200 alice_online)
      = [Emit (Channel_created 4 ''music'' (Some '''')) All_sessions None]"
  using C6_create_channel [OF alice_online_user, of "''general''" None 200]
        C6_create_channel [OF alice_online_user, of "''music''" None 200]
  by (simp add: alice_online_user)
     (simp add: alice_online_def seeded_channels_def general_def next_id_def)

subsection \<open>Joining the application\<close>

text \<open>
  Claim C8. Every \<open>join_app\<close> event that carries a username ends normally with the
  connection's joined-channel set equal to the empty set, whatever the set was before; a
  repeated \<open>join_app\<close> on a connection therefore discards the memberships recorded for it.
\<close>

theorem C8_join_app_resets_channels:
  "user_channels (st (join_app sid \<lparr>jad_username = Some username\<rparr> now s)) sid = Some {}
   \<and> raised (join_app sid \<lparr>jad_username = Some username\<rparr> now s) = None"
  by (simp add: join_app_def done_with_def Let_def split: option.splits prod.splits)

text \<open>
  Claim C4 does not hold for the empty username: \<open>join_app\<close> never inspects the username,
  so on a fresh process an empty username creates a User row, enters the active set and is
  confirmed with \<open>joined_app\<close>.
\<close>

theorem C4_empty_username_accepted:
  "users (db (st (join_app ''sid_a'' \<lparr>jad_username = Some ''''\<rparr> 100 (initial_state 0))))
     = [\<lparr>u_id = 1, u_username = '''', u_socket_id = Some ''sid_a'', u_created_at = 100\<rparr>]
   \<and> active_users (st (join_app ''sid_a'' \<lparr>jad_username = Some ''''\<rparr> 100 (initial_state 0)))
        ''sid_a'' = Some ''''
   \<and> actions (join_app ''sid_a'' \<lparr>jad_username = Some ''''\<rparr> 100 (initial_state 0))
     = [Emit (Joined_app '''' 1) (Sid_room ''sid_a'') None]
   \<and> raised (join_app ''sid_a'' \<lparr>jad_username = Some ''''\<rparr> 100 (initial_state 0)) = None"
  by (simp add: join_app_def initial_state_def create_default_channels_def done_with_def
      next_id_def)

text \<open>
  Claim C4, amended. A \<open>join_app\<close> event without a username ends with \<open>KeyError\<close> before
  anything is done: the state, and so the User rows and the active set, are unchanged and
  nothing is emitted. A \<open>join_app\<close> event whose username is the empty string is accepted
  like any other username: afterwards the connection is in the active set under the empty
  name, a User row with the empty name carries the connection identifier, and
  \<open>joined_app\<close> with that row's id is emitted to the connection.
\<close>

theorem C4_join_app_username:
  "join_app sid \<lparr>jad_username = None\<rparr> now s = \<lparr>st = s, actions = [], raised = Some KeyError\<rparr>
   \<and> raised (join_app sid \<lparr>jad_username = Some ''''\<rparr> now s) = None
   \<and> active_users (st (join_app sid \<lparr>jad_username = Some ''''\<rparr> now s)) sid = Some ''''
   \<and> (\<exists>u\<in>set (users (db (st (join_app sid \<lparr>jad_username = Some ''''\<rparr> now s)))).
         u_username u = '''' \<and> u_socket_id u = Some sid
         \<and> actions (join_app sid \<lparr>jad_username = Some ''''\<rparr> now s)
           = [Emit (Joined_app '''' (u_id u)) (Sid_room sid) None])"
proof (cases "find (\<lambda>u. u_username u = '''') (users (db s))")
  case None
  then show ?thesis
    by (simp add: join_app_def raise_with_def done_with_def Let_def)
next
  case (Some u)
  then have "u \<in> set (users (db s))" and "u_username u = ''''"
    using find_SomeD [of "\<lambda>u. u_username u = ''''" "users (db s)" u] by simp_all
  then have "u\<lparr>u_socket_id := Some sid\<rparr>
      \<in> set (users (set_socket_id (u_id u) (Some sid) (db s)))"
    by (force simp: set_socket_id_def)
  with Some \<open>u_username u = ''''\<close> show ?thesis
    by (auto simp add: join_app_def raise_with_def done_with_def Let_def
        intro!: bexI [where x = "u\<lparr>u_socket_id := Some sid\<rparr>"])
qed

subsection \<open>Leaving a channel\<close>

text \<open>
  Claim C10. For an identified connection, \<open>leave_channel\<close> always emits one \<open>user_left\<close>
  event that carries the given channel id, addressed to the room of that channel. Neither
  the connection's membership nor the existence of the channel is looked at.
\<close>

theorem C10_leave_channel_always_broadcasts:
  assumes "get_user_by_socket_id sid (db s) = Some user"
  shows "actions (leave_channel sid \<lparr>cd_channel_id = Some channel_id\<rparr> s)
         = [Leave_room sid (Channel_room channel_id),
            Emit (User_left (u_username user) channel_id) (Channel_room channel_id) None]
       \<and> raised (leave_channel sid \<lparr>cd_channel_id = Some channel_id\<rparr> s) = None"
  using assms by (simp add: leave_channel_def done_with_def Let_def)

theorem C10_witness:
  "get_user_by_socket_id ''sid_a'' (db alice_online) = Some alice
   \<and> find (\<lambda>c. c_id c = 77) (channels (db alice_online)) = None
   \<and> user_channels alice_online ''sid_a'' = Some {}
   \<and> actions (leave_channel ''sid_a'' \<lparr>cd_channel_id = Some 77\<rparr> alice_online)
         = [Leave_room ''sid_a'' (Channel_room 77),
            Emit (User_left ''alice'' 77) (Channel_room 77) None]"
  using C10_leave_channel_always_broadcasts [OF alice_online_user, of 77]
  by (simp add: alice_online_user)
     (simp add: alice_online_def alice_def seeded_channels_def general_def)

subsection \<open>Disconnecting\<close>

lemma filter_eq_single: "distinct xs \<Longrightarrow> a \<in> set xs \<Longrightarrow> filter (\<lambda>x. x = a) xs = [a]"
  by (induction xs) (auto simp: filter_empty_conv)

lemma emits_to_user_left:
  "emits_to (Channel_room a)
     (map (\<lambda>c. Emit (User_left n c) (Channel_room c) None) xs)
   = map (User_left n) (filter (\<lambda>x. x = a) xs)"
  by (induction xs) auto

text \<open>
  Claim C2. Let a connection resolve to a user, be in the active set under \<open>username\<close>
  and have the joined-channel set \<open>{A, B}\<close>. Then \<open>disconnect\<close> emits to the room of \<open>A\<close>
  exactly one event, \<open>user_left\<close> for \<open>A\<close>, and to the room of \<open>B\<close> exactly one event,
  \<open>user_left\<close> for \<open>B\<close>; these emits are all the actions of the handler, none of them twice;
  and afterwards the connection has no entry in the active-user map nor in the
  membership map.
\<close>

theorem C2_disconnect_two_channels:
  assumes "get_user_by_socket_id sid (db s) = Some user"
    and "active_users s sid = Some username"
    and "user_channels s sid = Some {A, B}"
  shows "emits_to (Channel_room A) (actions (disconnect sid s)) = [User_left username A]
       \<and> emits_to (Channel_room B) (actions (disconnect sid s)) = [User_left username B]
       \<and> set (actions (disconnect sid s))
          = {Emit (User_left username A) (Channel_room A) None,
             Emit (User_left username B) (Channel_room B) None}
       \<and> distinct (actions (disconnect sid s))
       \<and> active_users (st (disconnect sid s)) sid = None
       \<and> user_channels (st (disconnect sid s)) sid = None
       \<and> raised (disconnect sid s) = None"
proof -
  let ?f = "\<lambda>c. Emit (User_left username c) (Channel_room c) None"
  let ?xs = "sorted_list_of_set {A, B}"
  have acts: "actions (disconnect sid s) = map ?f ?xs"
    using assms by (simp add: disconnect_def done_with_def Let_def)
  have d: "distinct ?xs" by (rule distinct_sorted_list_of_set)
  have sx: "set ?xs = {A, B}" by (rule set_sorted_list_of_set) simp
  have inj: "inj ?f" by (simp add: inj_def)
  have "filter (\<lambda>x. x = A) ?xs = [A]" "filter (\<lambda>x. x = B) ?xs = [B]"
    using d sx by (simp_all add: filter_eq_single)
  then have e: "emits_to (Channel_room A) (map ?f ?xs) = [User_left username A]"
    "emits_to (Channel_room B) (map ?f ?xs) = [User_left username B]"
    by (simp_all add: emits_to_user_left)
  have s: "set (map ?f ?xs) = {?f A, ?f B}" using sx by simp
  have dd: "distinct (map ?f ?xs)" using d inj by (simp add: distinct_map inj_on_def)
  have rest: "active_users (st (disconnect sid s)) sid = None
       \<and> user_channels (st (disconnect sid s)) sid = None
       \<and> raised (disconnect sid s) = None"
    using assms by (simp add: disconnect_def done_with_def Let_def)
  show ?thesis using e s dd rest by (simp add: acts)
qed

theorem C2_witness:
  "get_user_by_socket_id ''sid_a'' (db alice_two_channels) = Some alice
   \<and> active_users alice_two_channels ''sid_a'' = Some ''alice''
   \<and> user_channels alice_two_channels ''sid_a'' = Some {1, 2}
   \<and> emits_to (Channel_room 1) (actions (disconnect ''sid_a'' alice_two_channels))
      = [User_left ''alice'' 1]
   \<and> emits_to (Channel_room 2) (actions (disconnect ''sid_a'' alice_two_channels))
      = [User_left ''alice'' 2]
   \<and> set (actions (disconnect ''sid_a'' alice_two_channels))
      = {Emit (User_left ''alice'' 1) (Channel_room 1) None,
         Emit (User_left ''alice'' 2) (Channel_room 2) None}
   \<and> active_users (st (disconnect ''sid_a'' alice_two_channels)) ''sid_a'' = None
   \<and> user_channels (st (disconnect ''sid_a'' alice_two_channels)) ''sid_a'' = None"
proof -
  have a: "active_users alice_two_channels ''sid_a'' = Some ''alice''"
    by (simp add: alice_two_channels_def alice_online_def)
  have c: "user_channels alice_two_channels ''sid_a'' = Some {1, 2}"
    by (simp add: alice_two_channels_def)
  show ?thesis
    using C2_disconnect_two_channels [OF alice_two_channels_user a c] a c
    by (simp add: alice_two_channels_user)
qed

text \<open>
  Claim C1 fails on the code. \<open>disconnect\<close> removes the in-memory entries only inside the
  branch where a User row still carries the connection identifier. Once another
  connection has sent \<open>join_app\<close> with the same username, the row carries the other
  identifier, and the disconnect of the first connection removes nothing: its membership
  entry and its active-set entry stay, and no \<open>user_left\<close> is emitted.
\<close>

theorem C1_disconnect_after_rebind_keeps_membership:
  "alice_rebound
     = st (join_app ''sid_b'' \<lparr>jad_username = Some ''alice''\<rparr> 300
         (st (join_channel ''sid_a'' \<lparr>cd_channel_id = Some 1\<rparr>
            (st (join_app ''sid_a'' \<lparr>jad_username = Some ''alice''\<rparr> 100 (initial_state 0))))))
   \<and> user_channels (st (disconnect ''sid_a'' alice_rebound)) ''sid_a'' = Some {1}
   \<and> active_users (st (disconnect ''sid_a'' alice_rebound)) ''sid_a'' = Some ''alice''
   \<and> actions (disconnect ''sid_a'' alice_rebound) = []"
proof -
  have "alice_rebound
     = st (join_app ''sid_b'' \<lparr>jad_username = Some ''alice''\<rparr> 300
         (st (join_channel ''sid_a'' \<lparr>cd_channel_id = Some 1\<rparr>
            (st (join_app ''sid_a'' \<lparr>jad_username = Some ''alice''\<rparr> 100 (initial_state 0))))))"
    by (simp only: alice_rebound_reached alice_in_general_reached alice_online_reached)
  moreover have "user_channels (st (disconnect ''sid_a'' alice_rebound)) ''sid_a'' = Some {1}
     \<and> active_users (st (disconnect ''sid_a'' alice_rebound)) ''sid_a'' = Some ''alice''
     \<and> actions (disconnect ''sid_a'' alice_rebound) = []"
    by (simp add: disconnect_def get_user_by_socket_id_def alice_rebound_def alice_def
        done_with_def)
  ultimately show ?thesis by (rule conjI)
qed

subsection \<open>Joining and leaving a channel\<close>

lemma message_dicts_total:
  "\<forall>m\<in>set ms. find (\<lambda>u. u_id u = m_user_id m) (users d) \<noteq> None
   \<Longrightarrow> \<exists>xs. message_dicts d ms = Inr xs"
  by (induction ms) (auto simp: message_dict_def split: option.splits)

lemma set_get_channel_messages:
  "set (get_channel_messages cid d n) \<subseteq> set (messages d)"
  by (auto simp: get_channel_messages_def dest: in_set_takeD)

lemma join_channel_db: "db (st (join_channel sid data s)) = db s"
  by (simp add: join_channel_def done_with_def raise_with_def Let_def
      split: option.splits sum.splits)

lemma leave_channel_db: "db (st (leave_channel sid data s)) = db s"
  by (simp add: leave_channel_def done_with_def raise_with_def Let_def split: option.splits)

lemma join_channel_actions:
  assumes "get_user_by_socket_id sid (db s) = Some user"
    and "find (\<lambda>c. c_id c = channel_id) (channels (db s)) = Some channel"
    and "message_dicts (db s) (get_channel_messages channel_id (db s) 50) = Inr md"
  shows "join_channel sid \<lparr>cd_channel_id = Some channel_id\<rparr> s
     = \<lparr>st = (case user_channels s sid of
                None \<Rightarrow> s
              | Some chans \<Rightarrow>
                  s\<lparr>user_channels := (user_channels s)(sid \<mapsto> insert channel_id chans)\<rparr>),
        actions = [Enter_room sid (Channel_room channel_id),
                   Emit (Channel_joined channel_id (c_name channel) md) (Sid_room sid) None,
                   Emit (User_joined (u_username user) channel_id)
                     (Channel_room channel_id) (Some sid)],
        raised = None\<rparr>"
  using assms by (simp add: join_channel_def done_with_def Let_def)

lemma leave_channel_result:
  assumes "get_user_by_socket_id sid (db s) = Some user"
  shows "leave_channel sid \<lparr>cd_channel_id = Some channel_id\<rparr> s
     = \<lparr>st = (case user_channels s sid of
                None \<Rightarrow> s
              | Some chans \<Rightarrow>
                  s\<lparr>user_channels := (user_channels s)(sid \<mapsto> chans - {channel_id})\<rparr>),
        actions = [Leave_room sid (Channel_room channel_id),
                   Emit (User_left (u_username user) channel_id)
                     (Channel_room channel_id) None],
        raised = None\<rparr>"
  using assms by (simp add: leave_channel_def done_with_def Let_def)

text \<open>
  Claim C3 does not hold in two places. \<open>alice_in_general\<close> is the state right after the
  connection joined channel 1, a call that emitted \<open>user_joined\<close>. From there, where the
  connection is already a member, \<open>join_channel\<close> followed by \<open>leave_channel\<close> does not
  restore the membership \<open>{1}\<close> but leaves the empty set. And the repeated calls are not
  silent: the second \<open>join_channel\<close> leaves the membership unchanged and emits
  \<open>user_joined\<close> a second time, and \<open>leave_channel\<close> on a channel the connection is not a
  member of (\<open>alice_online\<close>, and again after a first leave) emits \<open>user_left\<close> each time.
\<close>

theorem C3_rejoin_then_leave_loses_membership:
  "alice_in_general = st (join_channel ''sid_a'' \<lparr>cd_channel_id = Some 1\<rparr> alice_online)
   \<and> get_user_by_socket_id ''sid_a'' (db alice_in_general) = Some alice
   \<and> find (\<lambda>c. c_id c = 1) (channels (db alice_in_general)) = Some general
   \<and> user_channels alice_in_general ''sid_a'' = Some {1}
   \<and> user_channels (st (leave_channel ''sid_a'' \<lparr>cd_channel_id = Some 1\<rparr>
        (st (join_channel ''sid_a'' \<lparr>cd_channel_id = Some 1\<rparr> alice_in_general)))) ''sid_a''
     = Some {}
   \<and> actions (join_channel ''sid_a'' \<lparr>cd_channel_id = Some 1\<rparr> alice_online)
     = [Enter_room ''sid_a'' (Channel_room 1),
        Emit (Channel_joined 1 ''general'' []) (Sid_room ''sid_a'') None,
        Emit (User_joined ''alice'' 1) (Channel_room 1) (Some ''sid_a'')]
   \<and> user_channels (st (join_channel ''sid_a'' \<lparr>cd_channel_id = Some 1\<rparr> alice_in_general))
     = user_channels alice_in_general
   \<and> actions (join_channel ''sid_a'' \<lparr>cd_channel_id = Some 1\<rparr> alice_in_general)
     = [Enter_room ''sid_a'' (Channel_room 1),
        Emit (Channel_joined 1 ''general'' []) (Sid_room ''sid_a'') None,
        Emit (User_joined ''alice'' 1) (Channel_room 1) (Some ''sid_a'')]
   \<and> user_channels alice_online ''sid_a'' = Some {}
   \<and> user_channels (st (leave_channel ''sid_a'' \<lparr>cd_channel_id = Some 1\<rparr> alice_online))
     = user_channels alice_online
   \<and> actions (leave_channel ''sid_a'' \<lparr>cd_channel_id = Some 1\<rparr> alice_online)
     = [Leave_room ''sid_a'' (Channel_room 1),
        Emit (User_left ''alice'' 1) (Channel_room 1) None]
   \<and> actions (leave_channel ''sid_a'' \<lparr>cd_channel_id = Some 1\<rparr>
        (st (leave_channel ''sid_a'' \<lparr>cd_channel_id = Some 1\<rparr> alice_in_general)))
     = [Leave_room ''sid_a'' (Channel_room 1),
        Emit (User_left ''alice'' 1) (Channel_room 1) None]"
proof -
  have m: "message_dicts (db alice_online) (get_channel_messages 1 (db alice_online) 50) = Inr []"
    by (simp add: get_channel_messages_def alice_online_def)
  have m': "message_dicts (db alice_in_general)
              (get_channel_messages 1 (db alice_in_general) 50) = Inr []"
    by (simp add: get_channel_messages_def alice_in_general_def alice_online_def)
  have u': "get_user_by_socket_id ''sid_a'' (db alice_in_general) = Some alice"
    by (simp add: alice_in_general_def alice_online_user)
  have g': "find (\<lambda>c. c_id c = 1) (channels (db alice_in_general)) = Some general"
    by (simp add: alice_in_general_def alice_online_general)
  have uc: "user_channels alice_in_general ''sid_a'' = Some {1}"
    by (simp add: alice_in_general_def)
  have uc0: "user_channels alice_online ''sid_a'' = Some {}"
    by (simp add: alice_online_def)
  note j0 = join_channel_actions [OF alice_online_user alice_online_general m]
  note j1 = join_channel_actions [OF u' g' m']
  note l0 = leave_channel_result [OF alice_online_user, of 1]
  note l1 = leave_channel_result [OF u', of 1]
  have stj1: "st (join_channel ''sid_a'' \<lparr>cd_channel_id = Some 1\<rparr> alice_in_general)
      = alice_in_general"
    by (subst j1) (simp add: uc, simp add: alice_in_general_def)
  have stl1: "st (leave_channel ''sid_a'' \<lparr>cd_channel_id = Some 1\<rparr> alice_in_general)
      = alice_online"
    by (subst l1) (simp add: uc, simp add: alice_in_general_def alice_online_def)
  have c1: "user_channels (st (leave_channel ''sid_a'' \<lparr>cd_channel_id = Some 1\<rparr>
        (st (join_channel ''sid_a'' \<lparr>cd_channel_id = Some 1\<rparr> alice_in_general)))) ''sid_a''
     = Some {}"
    by (simp only: stj1 stl1) (rule uc0)
  have c2: "actions (join_channel ''sid_a'' \<lparr>cd_channel_id = Some 1\<rparr> alice_online)
     = [Enter_room ''sid_a'' (Channel_room 1),
        Emit (Channel_joined 1 ''general'' []) (Sid_room ''sid_a'') None,
        Emit (User_joined ''alice'' 1) (Channel_room 1) (Some ''sid_a'')]"
    by (subst j0) (simp add: general_def alice_def)
  have c3: "user_channels (st (join_channel ''sid_a'' \<lparr>cd_channel_id = Some 1\<rparr> alice_in_general))
     = user_channels alice_in_general"
    by (simp only: stj1)
  have c4: "actions (join_channel ''sid_a'' \<lparr>cd_channel_id = Some 1\<rparr> alice_in_general)
     = [Enter_room ''sid_a'' (Channel_room 1),
        Emit (Channel_joined 1 ''general'' []) (Sid_room ''sid_a'') None,
        Emit (User_joined ''alice'' 1) (Channel_room 1) (Some ''sid_a'')]"
    by (subst j1) (simp add: general_def alice_def)
  have c5: "user_channels (st (leave_channel ''sid_a'' \<lparr>cd_channel_id = Some 1\<rparr> alice_online))
     = user_channels alice_online"
    by (subst l0) (simp add: uc0, simp add: alice_online_def)
  have c6: "actions (leave_channel ''sid_a'' \<lparr>cd_channel_id = Some 1\<rparr> alice_online)
     = [Leave_room ''sid_a'' (Channel_room 1),
        Emit (User_left ''alice'' 1) (Channel_room 1) None]"
    by (subst l0) (simp add: alice_def)
  have c7: "actions (leave_channel ''sid_a'' \<lparr>cd_channel_id = Some 1\<rparr>
        (st (leave_channel ''sid_a'' \<lparr>cd_channel_id = Some 1\<rparr> alice_in_general)))
     = [Leave_room ''sid_a'' (Channel_room 1),
        Emit (User_left ''alice'' 1) (Channel_room 1) None]"
    by (simp only: stl1) (rule c6)
  from alice_in_general_reached u' g' uc c1 c2 c3 c4 uc0 c5 c6 c7 show ?thesis
    by (intro conjI)
qed

text \<open>
  Claim C3, amended. Let the connection resolve to a user, the channel exist, and every
  Message row have its author among the User rows. \<open>join_channel\<close> adds the channel to the
  connection's joined set and \<open>leave_channel\<close> removes it, both only when the connection
  has a joined set, and neither changes anything else of the state nor raises. So
  \<open>join_channel\<close> followed by \<open>leave_channel\<close> leaves the joined set without the channel:
  the membership before the join is restored when the connection was not a member of the
  channel, and when it was a member the pair removes the channel and the membership
  differs from the one before the join. \<open>join_channel\<close> on a channel already joined, and
  \<open>leave_channel\<close> on a channel not joined, leave the membership map unchanged. Every
  \<open>join_channel\<close>, repeated or not, emits exactly one \<open>user_joined\<close> (after the
  \<open>channel_joined\<close> reply), and every \<open>leave_channel\<close>, repeated or not, exactly one
  \<open>user_left\<close>: the repeated call emits the same actions as the first.
\<close>

theorem C3_join_leave:
  assumes u: "get_user_by_socket_id sid (db s) = Some user"
    and ch: "find (\<lambda>c. c_id c = channel_id) (channels (db s)) = Some channel"
    and fk: "\<forall>m\<in>set (messages (db s)).
               find (\<lambda>u. u_id u = m_user_id m) (users (db s)) \<noteq> None"
  shows "st (join_channel sid \<lparr>cd_channel_id = Some channel_id\<rparr> s)
          = (case user_channels s sid of
               None \<Rightarrow> s
             | Some chans \<Rightarrow>
                 s\<lparr>user_channels := (user_channels s)(sid \<mapsto> insert channel_id chans)\<rparr>)
       \<and> raised (join_channel sid \<lparr>cd_channel_id = Some channel_id\<rparr> s) = None
       \<and> st (leave_channel sid \<lparr>cd_channel_id = Some channel_id\<rparr> s)
          = (case user_channels s sid of
               None \<Rightarrow> s
             | Some chans \<Rightarrow>
                 s\<lparr>user_channels := (user_channels s)(sid \<mapsto> chans - {channel_id})\<rparr>)
       \<and> raised (leave_channel sid \<lparr>cd_channel_id = Some channel_id\<rparr> s) = None
       \<and> st (leave_channel sid \<lparr>cd_channel_id = Some channel_id\<rparr>
              (st (join_channel sid \<lparr>cd_channel_id = Some channel_id\<rparr> s)))
          = (case user_channels s sid of
               None \<Rightarrow> s
             | Some chans \<Rightarrow>
                 s\<lparr>user_channels := (user_channels s)(sid \<mapsto> chans - {channel_id})\<rparr>)
       \<and> ((\<forall>S. user_channels s sid = Some S \<longrightarrow> channel_id \<notin> S) \<longrightarrow>
            user_channels (st (leave_channel sid \<lparr>cd_channel_id = Some channel_id\<rparr>
              (st (join_channel sid \<lparr>cd_channel_id = Some channel_id\<rparr> s))))
            = user_channels s)
       \<and> (\<forall>S. user_channels s sid = Some S \<longrightarrow> channel_id \<in> S \<longrightarrow>
            user_channels (st (leave_channel sid \<lparr>cd_channel_id = Some channel_id\<rparr>
              (st (join_channel sid \<lparr>cd_channel_id = Some channel_id\<rparr> s)))) sid
            = Some (S - {channel_id})
            \<and> user_channels (st (leave_channel sid \<lparr>cd_channel_id = Some channel_id\<rparr>
              (st (join_channel sid \<lparr>cd_channel_id = Some channel_id\<rparr> s))))
              \<noteq> user_channels s)
       \<and> ((\<forall>S. user_channels s sid = Some S \<longrightarrow> channel_id \<in> S) \<longrightarrow>
            user_channels (st (join_channel sid \<lparr>cd_channel_id = Some channel_id\<rparr> s))
            = user_channels s)
       \<and> ((\<forall>S. user_channels s sid = Some S \<longrightarrow> channel_id \<notin> S) \<longrightarrow>
            user_channels (st (leave_channel sid \<lparr>cd_channel_id = Some channel_id\<rparr> s))
            = user_channels s)
       \<and> (\<exists>md. actions (join_channel sid \<lparr>cd_channel_id = Some channel_id\<rparr> s)
            = [Enter_room sid (Channel_room channel_id),
               Emit (Channel_joined channel_id (c_name channel) md) (Sid_room sid) None,
               Emit (User_joined (u_username user) channel_id)
                 (Channel_room channel_id) (Some sid)])
       \<and> actions (join_channel sid \<lparr>cd_channel_id = Some channel_id\<rparr>
            (st (join_channel sid \<lparr>cd_channel_id = Some channel_id\<rparr> s)))
          = actions (join_channel sid \<lparr>cd_channel_id = Some channel_id\<rparr> s)
       \<and> actions (leave_channel sid \<lparr>cd_channel_id = Some channel_id\<rparr> s)
          = [Leave_room sid (Channel_room channel_id),
             Emit (User_left (u_username user) channel_id) (Channel_room channel_id) None]
       \<and> actions (leave_channel sid \<lparr>cd_channel_id = Some channel_id\<rparr>
            (st (leave_channel sid \<lparr>cd_channel_id = Some channel_id\<rparr> s)))
          = actions (leave_channel sid \<lparr>cd_channel_id = Some channel_id\<rparr> s)"
proof -
  let ?data = "\<lparr>cd_channel_id = Some channel_id\<rparr>"
  let ?j = "join_channel sid ?data s"
  let ?l = "leave_channel sid ?data s"
  let ?lj = "leave_channel sid ?data (st ?j)"
  from fk set_get_channel_messages [of channel_id "db s" 50]
  have "\<forall>m\<in>set (get_channel_messages channel_id (db s) 50).
          find (\<lambda>u. u_id u = m_user_id m) (users (db s)) \<noteq> None"
    by blast
  then obtain md
    where md: "message_dicts (db s) (get_channel_messages channel_id (db s) 50) = Inr md"
    using message_dicts_total by blast
  note j = join_channel_actions [OF u ch md]
  note l = leave_channel_result [OF u, of channel_id]
  have dbj: "db (st ?j) = db s" by (rule join_channel_db)
  have dbl: "db (st ?l) = db s" by (rule leave_channel_db)
  have u': "get_user_by_socket_id sid (db (st ?j)) = Some user"
    and ch': "find (\<lambda>c. c_id c = channel_id) (channels (db (st ?j))) = Some channel"
    and md': "message_dicts (db (st ?j)) (get_channel_messages channel_id (db (st ?j)) 50)
              = Inr md"
    using u ch md by (simp_all only: dbj)
  have u'': "get_user_by_socket_id sid (db (st ?l)) = Some user"
    using u by (simp only: dbl)
  have stj: "st ?j = (case user_channels s sid of
                None \<Rightarrow> s
              | Some chans \<Rightarrow>
                  s\<lparr>user_channels := (user_channels s)(sid \<mapsto> insert channel_id chans)\<rparr>)"
    by (subst j) simp
  have rj: "raised ?j = None" by (subst j) simp
  have stl: "st ?l = (case user_channels s sid of
                None \<Rightarrow> s
              | Some chans \<Rightarrow>
                  s\<lparr>user_channels := (user_channels s)(sid \<mapsto> chans - {channel_id})\<rparr>)"
    by (subst l) simp
  have rl: "raised ?l = None" by (subst l) simp
  have actj: "actions ?j
            = [Enter_room sid (Channel_room channel_id),
               Emit (Channel_joined channel_id (c_name channel) md) (Sid_room sid) None,
               Emit (User_joined (u_username user) channel_id)
                 (Channel_room channel_id) (Some sid)]"
    by (subst j) simp
  have jj: "actions (join_channel sid ?data (st ?j)) = actions ?j"
    by (subst join_channel_actions [OF u' ch' md']) (simp add: actj)
  have e: "actions ?l
          = [Leave_room sid (Channel_room channel_id),
             Emit (User_left (u_username user) channel_id) (Channel_room channel_id) None]"
    by (subst l) simp
  have ll: "actions (leave_channel sid ?data (st ?l)) = actions ?l"
    by (subst leave_channel_result [OF u'']) (simp add: e)
  have "st ?lj
      = (case user_channels (st ?j) sid of
            None \<Rightarrow> st ?j
          | Some chans \<Rightarrow>
              (st ?j)\<lparr>user_channels := (user_channels (st ?j))(sid \<mapsto> chans - {channel_id})\<rparr>)"
    by (subst leave_channel_result [OF u']) simp
  then have stlj: "st ?lj
      = (case user_channels s sid of
           None \<Rightarrow> s
         | Some chans \<Rightarrow>
             s\<lparr>user_channels := (user_channels s)(sid \<mapsto> chans - {channel_id})\<rparr>)"
    by (simp add: stj split: option.splits)
  have a: "(\<forall>S. user_channels s sid = Some S \<longrightarrow> channel_id \<notin> S) \<longrightarrow>
      user_channels (st ?lj) = user_channels s"
    by (auto simp: stlj split: option.splits)
  have m: "\<forall>S. user_channels s sid = Some S \<longrightarrow> channel_id \<in> S \<longrightarrow>
      user_channels (st ?lj) sid = Some (S - {channel_id})
      \<and> user_channels (st ?lj) \<noteq> user_channels s"
  proof (intro allI impI)
    fix S
    assume S: "user_channels s sid = Some S" and mem: "channel_id \<in> S"
    have v: "user_channels (st ?lj) sid = Some (S - {channel_id})"
      by (simp add: stlj S)
    from mem have "S - {channel_id} \<noteq> S" by blast
    with v S have "user_channels (st ?lj) sid \<noteq> user_channels s sid" by simp
    then have "user_channels (st ?lj) \<noteq> user_channels s" by metis
    with v show "user_channels (st ?lj) sid = Some (S - {channel_id})
      \<and> user_channels (st ?lj) \<noteq> user_channels s" by (rule conjI)
  qed
  have b: "(\<forall>S. user_channels s sid = Some S \<longrightarrow> channel_id \<in> S) \<longrightarrow>
      user_channels (st ?j) = user_channels s"
    by (auto simp: stj insert_absorb split: option.splits)
  have c: "(\<forall>S. user_channels s sid = Some S \<longrightarrow> channel_id \<notin> S) \<longrightarrow>
      user_channels (st ?l) = user_channels s"
    by (auto simp: stl split: option.splits)
  have d: "\<exists>md. actions ?j
            = [Enter_room sid (Channel_room channel_id),
               Emit (Channel_joined channel_id (c_name channel) md) (Sid_room sid) None,
               Emit (User_joined (u_username user) channel_id)
                 (Channel_room channel_id) (Some sid)]"
    using actj by blast
  from stj rj stl rl stlj a m b c d jj e ll show ?thesis by (intro conjI)
qed

theorem C3_witness:
  "get_user_by_socket_id ''sid_a'' (db clock_back) = Some alice
   \<and> find (\<lambda>c. c_id c = 1) (channels (db clock_back)) = Some general
   \<and> list_all (\<lambda>m. find (\<lambda>u. u_id u = m_user_id m) (users (db clock_back)) \<noteq> None)
        (messages (db clock_back))
   \<and> user_channels clock_back ''sid_a'' = Some {}
   \<and> user_channels (st (join_channel ''sid_a'' \<lparr>cd_channel_id = Some 1\<rparr> clock_back)) ''sid_a''
      = Some {1}
   \<and> user_channels (st (leave_channel ''sid_a'' \<lparr>cd_channel_id = Some 1\<rparr>
        (st (join_channel ''sid_a'' \<lparr>cd_channel_id = Some 1\<rparr> clock_back))))
      = user_channels clock_back
   \<and> user_channels (st (leave_channel ''sid_a'' \<lparr>cd_channel_id = Some 1\<rparr> clock_back))
      = user_channels clock_back
   \<and> actions (leave_channel ''sid_a'' \<lparr>cd_channel_id = Some 1\<rparr> clock_back)
      = [Leave_room ''sid_a'' (Channel_room 1),
         Emit (User_left ''alice'' 1) (Channel_room 1) None]
   \<and> actions (join_channel ''sid_a'' \<lparr>cd_channel_id = Some 1\<rparr>
        (st (join_channel ''sid_a'' \<lparr>cd_channel_id = Some 1\<rparr> clock_back)))
      = actions (join_channel ''sid_a'' \<lparr>cd_channel_id = Some 1\<rparr> clock_back)
   \<and> user_channels alice_in_general ''sid_a'' = Some {1}
   \<and> user_channels (st (join_channel ''sid_a'' \<lparr>cd_channel_id = Some 1\<rparr> alice_in_general))
      = user_channels alice_in_general
   \<and> user_channels (st (leave_channel ''sid_a'' \<lparr>cd_channel_id = Some 1\<rparr>
        (st (join_channel ''sid_a'' \<lparr>cd_channel_id = Some 1\<rparr> alice_in_general)))) ''sid_a''
      = Some {}"
proof -
  have fk: "\<forall>m\<in>set (messages (db clock_back)).
              find (\<lambda>u. u_id u = m_user_id m) (users (db clock_back)) \<noteq> None"
    by (simp add: clock_back_def alice_online_def alice_def first_msg_def second_msg_def)
  have w3: "list_all (\<lambda>m. find (\<lambda>u. u_id u = m_user_id m) (users (db clock_back)) \<noteq> None)
        (messages (db clock_back))"
    unfolding list_all_iff by (rule fk)
  have uc: "user_channels clock_back ''sid_a'' = Some {}"
    by (simp add: clock_back_def alice_online_def)
  then have nm: "\<forall>S. user_channels clock_back ''sid_a'' = Some S \<longrightarrow> (1::int) \<notin> S"
    by simp
  note t = C3_join_leave [OF clock_back_user clock_back_general fk]
  from t have "st (join_channel ''sid_a'' \<lparr>cd_channel_id = Some 1\<rparr> clock_back)
      = (case user_channels clock_back ''sid_a'' of
           None \<Rightarrow> clock_back
         | Some chans \<Rightarrow>
             clock_back\<lparr>user_channels := (user_channels clock_back)(''sid_a'' \<mapsto> insert 1 chans)\<rparr>)"
    by (rule conjunct1)
  then have w5: "user_channels (st (join_channel ''sid_a'' \<lparr>cd_channel_id = Some 1\<rparr> clock_back))
      ''sid_a'' = Some {1}"
    by (simp add: uc)
  from t nm have w6: "user_channels (st (leave_channel ''sid_a'' \<lparr>cd_channel_id = Some 1\<rparr>
        (st (join_channel ''sid_a'' \<lparr>cd_channel_id = Some 1\<rparr> clock_back))))
      = user_channels clock_back"
    by blast
  from t nm have w7: "user_channels (st (leave_channel ''sid_a'' \<lparr>cd_channel_id = Some 1\<rparr> clock_back))
      = user_channels clock_back"
    by blast
  from t have "actions (leave_channel ''sid_a'' \<lparr>cd_channel_id = Some 1\<rparr> clock_back)
      = [Leave_room ''sid_a'' (Channel_room 1),
         Emit (User_left (u_username alice) 1) (Channel_room 1) None]"
    by blast
  then have w8: "actions (leave_channel ''sid_a'' \<lparr>cd_channel_id = Some 1\<rparr> clock_back)
      = [Leave_room ''sid_a'' (Channel_room 1),
         Emit (User_left ''alice'' 1) (Channel_room 1) None]"
    by (simp add: alice_def)
  from t have w9: "actions (join_channel ''sid_a'' \<lparr>cd_channel_id = Some 1\<rparr>
        (st (join_channel ''sid_a'' \<lparr>cd_channel_id = Some 1\<rparr> clock_back)))
      = actions (join_channel ''sid_a'' \<lparr>cd_channel_id = Some 1\<rparr> clock_back)"
    by blast
  have fk': "\<forall>m\<in>set (messages (db alice_in_general)).
              find (\<lambda>u. u_id u = m_user_id m) (users (db alice_in_general)) \<noteq> None"
    by (simp add: alice_in_general_def alice_online_def)
  have u': "get_user_by_socket_id ''sid_a'' (db alice_in_general) = Some alice"
    by (simp add: alice_in_general_def alice_online_user)
  have g': "find (\<lambda>c. c_id c = 1) (channels (db alice_in_general)) = Some general"
    by (simp add: alice_in_general_def alice_online_general)
  have uc': "user_channels alice_in_general ''sid_a'' = Some {1}"
    by (simp add: alice_in_general_def)
  then have mem: "\<forall>S. user_channels alice_in_general ''sid_a'' = Some S \<longrightarrow> (1::int) \<in> S"
    by simp
  note t' = C3_join_leave [OF u' g' fk']
  from t' mem have w10: "user_channels (st (join_channel ''sid_a'' \<lparr>cd_channel_id = Some 1\<rparr>
        alice_in_general)) = user_channels alice_in_general"
    by blast
  from t' uc' have "user_channels (st (leave_channel ''sid_a'' \<lparr>cd_channel_id = Some 1\<rparr>
        (st (join_channel ''sid_a'' \<lparr>cd_channel_id = Some 1\<rparr> alice_in_general)))) ''sid_a''
      = Some ({1} - {1})"
    by blast
  then have w11: "user_channels (st (leave_channel ''sid_a'' \<lparr>cd_channel_id = Some 1\<rparr>
        (st (join_channel ''sid_a'' \<lparr>cd_channel_id = Some 1\<rparr> alice_in_general)))) ''sid_a''
      = Some {}"
    by simp
  from clock_back_user clock_back_general w3 uc w5 w6 w7 w8 w9 uc' w10 w11 show ?thesis
    by (intro conjI)
qed

subsection \<open>Recent messages\<close>

lemma insort_key_last:
  "\<forall>y\<in>set ys. f y < f x \<Longrightarrow> insort_key f x ys = ys @ [x]"
  by (induction ys) auto

lemma sort_key_strictly_decreasing:
  "sorted_wrt (\<lambda>a b. f b < f a) xs \<Longrightarrow> sort_key f xs = rev xs"
  by (induction xs) (simp_all add: insort_key_last)

lemma newest_first_sorted:
  "sorted_wrt (\<lambda>a b. m_timestamp b \<le> m_timestamp a) (sort_key (\<lambda>m. - m_timestamp m) ms)"
proof -
  have "sorted (map (\<lambda>m. - m_timestamp m) (sort_key (\<lambda>m. - m_timestamp m) ms))"
    by (rule sorted_sort_key)
  then show ?thesis by (simp add: sorted_map)
qed

lemma take_drop_sorted_wrt:
  assumes "sorted_wrt P xs"
  shows "sorted_wrt P (take n xs)" and "\<forall>x\<in>set (take n xs). \<forall>y\<in>set (drop n xs). P x y"
proof -
  from assms have "sorted_wrt P (take n xs @ drop n xs)" by simp
  then show "sorted_wrt P (take n xs)" and "\<forall>x\<in>set (take n xs). \<forall>y\<in>set (drop n xs). P x y"
    unfolding sorted_wrt_append by blast+
qed

lemma mset_minus_take: "mset xs - mset (take n xs) = mset (drop n xs)"
proof -
  have "mset xs = mset (take n xs) + mset (drop n xs)"
    by (metis append_take_drop_id mset_append)
  then show ?thesis by simp
qed

text \<open>
  Claim C7 does not hold where it speaks of append order: the query orders by timestamp,
  and the timestamp is the wall clock at insertion. In \<open>clock_back\<close> the second message was
  stored with an earlier timestamp than the first, and it is returned before the first.
\<close>

theorem C7_clock_step_back_reorders:
  "clock_back =
     st (send_message ''sid_a'' \<lparr>smd_channel_id = Some 1, smd_content = Some ''two''\<rparr> 150
       (st (send_message ''sid_a'' \<lparr>smd_channel_id = Some 1, smd_content = Some ''one''\<rparr> 200
          alice_online)))
   \<and> channel_rows 1 (db clock_back) = [first_msg, second_msg]
   \<and> get_channel_messages 1 (db clock_back) 50 = [second_msg, first_msg]
   \<and> m_id first_msg < m_id second_msg"
proof -
  have "channel_rows 1 (db clock_back) = [first_msg, second_msg]
   \<and> get_channel_messages 1 (db clock_back) 50 = [second_msg, first_msg]
   \<and> m_id first_msg < m_id second_msg"
    by (simp add: channel_rows_def get_channel_messages_def clock_back_def first_msg_def
        second_msg_def)
  with clock_back_reached show ?thesis by (rule conjI)
qed

text \<open>
  Claim C7, amended. For every channel and limit \<open>n\<close>, \<open>get_channel_messages\<close> returns
  \<open>min n k\<close> rows, \<open>k\<close> being the number of rows of the channel; the rows are in
  non-decreasing timestamp order; each row is returned at most as often as it is stored
  (and not twice when the table has no duplicate row); every row of the channel that is
  left out has a timestamp not later than that of any returned row. When the timestamps
  of the channel's rows strictly increase in append order, the result is the last
  \<open>min n k\<close> rows of the channel in append order.
\<close>

theorem C7_recent_messages:
  "length (get_channel_messages cid d n) = min n (length (channel_rows cid d))
   \<and> sorted (map m_timestamp (get_channel_messages cid d n))
   \<and> mset (get_channel_messages cid d n) \<subseteq># mset (channel_rows cid d)
   \<and> (distinct (messages d) \<longrightarrow> distinct (get_channel_messages cid d n))
   \<and> (\<forall>x\<in>#(mset (channel_rows cid d) - mset (get_channel_messages cid d n)).
        \<forall>y\<in>set (get_channel_messages cid d n). m_timestamp x \<le> m_timestamp y)
   \<and> (sorted_wrt (<) (map m_timestamp (channel_rows cid d)) \<longrightarrow>
        get_channel_messages cid d n
        = drop (length (channel_rows cid d) - n) (channel_rows cid d))"
proof -
  let ?ms = "channel_rows cid d"
  let ?S = "sort_key (\<lambda>m. - m_timestamp m) ?ms"
  have r: "get_channel_messages cid d n = rev (take n ?S)"
    by (simp add: get_channel_messages_def channel_rows_def)
  have len: "length (rev (take n ?S)) = min n (length ?ms)" by simp
  have desc: "sorted_wrt (\<lambda>a b. m_timestamp b \<le> m_timestamp a) ?S"
    by (rule newest_first_sorted)
  have "sorted_wrt (\<lambda>a b. m_timestamp a \<le> m_timestamp b) (rev (take n ?S))"
    using take_drop_sorted_wrt(1) [OF desc, of n] by (simp add: sorted_wrt_rev)
  then have srt: "sorted (map m_timestamp (rev (take n ?S)))"
    by (simp only: sorted_map)
  have mS: "mset ?S = mset ?ms" by simp
  have "mset (take n ?S) \<subseteq># mset ?S"
    by (metis append_take_drop_id mset_append mset_subset_eq_add_left)
  then have sub: "mset (rev (take n ?S)) \<subseteq># mset ?ms" by simp
  have dist: "distinct (messages d) \<longrightarrow> distinct (rev (take n ?S))"
    by (simp add: channel_rows_def)
  have "mset ?ms - mset (rev (take n ?S)) = mset (drop n ?S)"
    using mset_minus_take [of ?S n] by simp
  then have recent: "\<forall>x\<in>#(mset ?ms - mset (rev (take n ?S))).
        \<forall>y\<in>set (rev (take n ?S)). m_timestamp x \<le> m_timestamp y"
    using take_drop_sorted_wrt(2) [OF desc, of n] by auto
  have app: "sorted_wrt (<) (map m_timestamp ?ms) \<longrightarrow>
        rev (take n ?S) = drop (length ?ms - n) ?ms"
  proof
    assume "sorted_wrt (<) (map m_timestamp ?ms)"
    then have "sorted_wrt (\<lambda>a b. - m_timestamp b < - m_timestamp a) ?ms"
      by (simp add: sorted_wrt_map)
    then have "?S = rev ?ms" by (rule sort_key_strictly_decreasing)
    then show "rev (take n ?S) = drop (length ?ms - n) ?ms"
      by (simp add: take_rev)
  qed
  show ?thesis
    unfolding r using len srt sub dist recent app by blast
qed

theorem C7_witness:
  "sorted_wrt (<) (map m_timestamp (channel_rows 1 three_messages))
   \<and> distinct (messages three_messages)
   \<and> get_channel_messages 1 three_messages 2
     = [\<lparr>m_id = 3, m_content = ''c'', m_user_id = 1, m_channel_id = 1, m_timestamp = 20\<rparr>,
        \<lparr>m_id = 4, m_content = ''d'', m_user_id = 1, m_channel_id = 1, m_timestamp = 30\<rparr>]
   \<and> length (get_channel_messages 1 three_messages 2) = 2
   \<and> sorted (map m_timestamp (get_channel_messages 1 three_messages 2))
   \<and> distinct (get_channel_messages 1 three_messages 2)"
proof -
  have rows: "channel_rows 1 three_messages
     = [\<lparr>m_id = 1, m_content = ''a'', m_user_id = 1, m_channel_id = 1, m_timestamp = 10\<rparr>,
        \<lparr>m_id = 3, m_content = ''c'', m_user_id = 1, m_channel_id = 1, m_timestamp = 20\<rparr>,
        \<lparr>m_id = 4, m_content = ''d'', m_user_id = 1, m_channel_id = 1, m_timestamp = 30\<rparr>]"
    by (simp add: channel_rows_def three_messages_def)
  have h: "sorted_wrt (<) (map m_timestamp (channel_rows 1 three_messages))"
    by (simp add: rows)
  have dm: "distinct (messages three_messages)" by (simp add: three_messages_def)
  show ?thesis
    using C7_recent_messages [of 1 three_messages 2] h dm by (simp add: rows)
qed

end
